theory Spec2Isabelle
  imports Complex_Main "HOL-Library.Word"
begin

section \<open>The incubator sketch: data\<close>

text \<open>
  \<^verbatim>\<open>Incubator.ino\<close> holds two hardware variants of one thermostat sketch. Both keep
  their state in global variables, read the clock with \<^verbatim>\<open>millis()\<close>, read a DS18B20
  probe, drive a relay pin and persist the set temperature in two EEPROM cells.

  Conventions of the embedding:
  \<^item> \<^verbatim>\<open>unsigned long\<close> is a 32-bit word, so \<^verbatim>\<open>millis() - x\<close> wraps as in the sketch;
  \<^item> \<^verbatim>\<open>byte\<close> is an 8-bit word;
  \<^item> a \<^verbatim>\<open>float\<close> is the real number it denotes; \<^verbatim>\<open>+\<close> and \<^verbatim>\<open>-\<close> on floats round the
    exact result to single precision (binary32, to nearest, ties to even), comparisons
    and the conversions to and from a byte are exact;
  \<^item> what comes from outside the sketch is an argument of the function that asks for
    it: the time at which \<^verbatim>\<open>millis()\<close> is called (in milliseconds since boot, not
    wrapped), the answer of a button query, the temperature the probe reports;
  \<^item> the LCD is write-only for the sketch and is left out.
\<close>

type_synonym byte = "8 word"
type_synonym ulong = "32 word"

section \<open>Single-precision arithmetic\<close>

text \<open>
  A binary32 number is \<open>m * 2 ^ (e - 23)\<close> with a whole \<open>m\<close> of magnitude below \<open>2 ^ 24\<close>
  and an exponent \<open>e\<close> from -126 to 127. \<open>float_exponent x\<close> is the exponent of the
  binade of \<open>x\<close>: the greatest \<open>e\<close> in that range with \<open>2 ^ e \<le> \<bar>x\<bar>\<close>, and -126 below
  the normal numbers. It is found by trying 127, 126, ... in turn.
\<close>

primrec exponent_from :: "nat \<Rightarrow> real \<Rightarrow> int" where
  "exponent_from 0 a = -126"
| "exponent_from (Suc n) a =
     (if 2 powi (int n - 125) \<le> a then int n - 125 else exponent_from n a)"

definition float_exponent :: "real \<Rightarrow> int" where
  "float_exponent x = exponent_from 253 \<bar>x\<bar>"

text \<open>The distance between neighbouring binary32 numbers in the binade of \<open>x\<close>.\<close>

definition float_ulp :: "real \<Rightarrow> real" where
  "float_ulp x = 2 powi (float_exponent x - 23)"

text \<open>The nearest whole number; halfway between two, the even one.\<close>

definition round_even :: "real \<Rightarrow> int" where
  "round_even r =
     (if r - of_int \<lfloor>r\<rfloor> < 1 / 2 then \<lfloor>r\<rfloor>
      else if 1 / 2 < r - of_int \<lfloor>r\<rfloor> then \<lfloor>r\<rfloor> + 1
      else if even \<lfloor>r\<rfloor> then \<lfloor>r\<rfloor> else \<lfloor>r\<rfloor> + 1)"

text \<open>
  The binary32 number nearest to \<open>x\<close>. A result of magnitude \<open>2 ^ 128\<close> or more stands for
  the infinity of that sign: it compares with every binary32 number as the infinity
  does, and the sketch only compares such a result. NaN is outside the model.
\<close>

definition float_round :: "real \<Rightarrow> real" where
  "float_round x = of_int (round_even (x / float_ulp x)) * float_ulp x"

definition float_add :: "real \<Rightarrow> real \<Rightarrow> real" where
  "float_add x y = float_round (x + y)"

definition float_sub :: "real \<Rightarrow> real \<Rightarrow> real" where
  "float_sub x y = float_round (x - y)"

section \<open>Settings and state\<close>

text \<open>
  Lines 26-35 (and 274-283): EEPROM addresses and settings. \<^verbatim>\<open>tempThreshold\<close> is the
  binary32 number nearest to 0.3.
\<close>

definition addrInitialized :: nat where
  "addrInitialized = 0"

definition addrSetTemp :: nat where
  "addrSetTemp = 1"

definition eepromInitialized :: byte where
  "eepromInitialized = 101"

definition readInterval :: ulong where
  "readInterval = 5000"

definition OnOffInterval :: ulong where
  "OnOffInterval = 30000"

definition saveSettingsInterval :: ulong where
  "saveSettingsInterval = 5000"

definition tempDifference :: real where
  "tempDifference = 2"

definition tempThreshold :: real where
  "tempThreshold = float_round (3 / 10)"

text \<open>
  Lines 37-49: the global variables, together with the two pieces of hardware state the
  sketch writes: the EEPROM cells and the level of \<^verbatim>\<open>HEATER_RELAY_PIN\<close>
  (\<open>True\<close> is \<^verbatim>\<open>HIGH\<close>).
\<close>

record incubator =
  eeprom :: "nat \<Rightarrow> byte"
  relayPin :: bool
  heaterIsOn :: bool
  setTemp :: real
  currentTemp :: real
  prevTemp :: real
  overShootControlActive :: bool
  readTempMillis :: ulong
  heaterOnMillis :: ulong
  heaterOffMillis :: ulong
  lastSaveSettingsMillis :: ulong
  printTimeMillis :: ulong
  saveLog :: "nat list"

text \<open>
  \<open>saveLog\<close> is not a variable of the sketch: it is the history of the calls of
  \<^verbatim>\<open>SaveSettings\<close> in the first variant, the time of each call in milliseconds since
  boot, oldest first. No condition of the sketch reads it.

  \<^verbatim>\<open>millis()\<close> returns the milliseconds since boot in an \<^verbatim>\<open>unsigned long\<close>, so the
  counter wraps at \<open>2 ^ 32\<close>.
\<close>

definition millis :: "nat \<Rightarrow> ulong" where
  "millis t = of_nat t"

section \<open>Persistent settings\<close>

text \<open>
  \<^verbatim>\<open>EEPROM.update(idx, val)\<close> of the Arduino core writes the cell only when it holds
  another value.
\<close>

definition EEPROM_update :: "nat \<Rightarrow> byte \<Rightarrow> (nat \<Rightarrow> byte) \<Rightarrow> (nat \<Rightarrow> byte)" where
  "EEPROM_update idx val cells = (if cells idx \<noteq> val then cells(idx := val) else cells)"

text \<open>
  Line 134 passes the \<^verbatim>\<open>float\<close> \<^verbatim>\<open>setTemp\<close> where \<^verbatim>\<open>EEPROM.update\<close> takes a \<^verbatim>\<open>uint8_t\<close>:
  the conversion drops the fraction (towards zero). C++ defines it only when the result
  fits the byte, that is for \<open>-1 < x < 256\<close>; outside that range the model keeps the low
  eight bits of the truncated value. Line 60 assigns the byte read back to the
  \<^verbatim>\<open>float\<close>.
\<close>

definition float_trunc :: "real \<Rightarrow> int" where
  "float_trunc x = (if 0 \<le> x then \<lfloor>x\<rfloor> else \<lceil>x\<rceil>)"

definition float_to_byte :: "real \<Rightarrow> byte" where
  "float_to_byte x = word_of_int (float_trunc x)"

definition byte_to_float :: "byte \<Rightarrow> real" where
  "byte_to_float b = real (unat b)"

text \<open>
  Lines 132-136 (first variant, \<open>t\<close> is the time of its clock read) and 387-390 (second
  variant, which keeps no timestamp).
\<close>

definition SaveSettings_v1 :: "nat \<Rightarrow> incubator \<Rightarrow> incubator" where
  "SaveSettings_v1 t st =
     st\<lparr>eeprom := EEPROM_update addrSetTemp (float_to_byte (setTemp st)) (eeprom st),
        lastSaveSettingsMillis := millis t,
        saveLog := saveLog st @ [t]\<rparr>"

definition SaveSettings_v2 :: "incubator \<Rightarrow> incubator" where
  "SaveSettings_v2 st =
     st\<lparr>eeprom := EEPROM_update addrSetTemp (float_to_byte (setTemp st)) (eeprom st)\<rparr>"

text \<open>
  The state when \<^verbatim>\<open>setup\<close> starts: the initialisers of lines 38-39, zero for the
  globals without one, the EEPROM as the last power cycle left it, and the relay pin
  \<^verbatim>\<open>LOW\<close>, as the output latch is after a reset (the sketch does not write the pin before
  the first transition).
\<close>

definition power_on :: "(nat \<Rightarrow> byte) \<Rightarrow> incubator" where
  "power_on cells =
     \<lparr>eeprom = cells, relayPin = False, heaterIsOn = False, setTemp = 22,
      currentTemp = 0, prevTemp = 0, overShootControlActive = False,
      readTempMillis = 0, heaterOnMillis = 0, heaterOffMillis = 0,
      lastSaveSettingsMillis = 0, printTimeMillis = 0, saveLog = []\<rparr>"

text \<open>
  \<^verbatim>\<open>setup\<close> of the first variant, lines 51-76. \<open>t\<close> is the time of the call of
  \<^verbatim>\<open>SaveSettings\<close>, \<open>probe\<close> the first temperature the probe reports. \<^verbatim>\<open>pinMode\<close> makes
  the relay pin an output and leaves its level; the other calls start the probe, the
  buttons and the LCD.
\<close>

definition setup_v1 :: "nat \<Rightarrow> real \<Rightarrow> incubator \<Rightarrow> incubator" where
  "setup_v1 t probe st0 =
     (let st1 = (if eeprom st0 addrInitialized \<noteq> eepromInitialized
                 then SaveSettings_v1 t
                        (st0\<lparr>eeprom := EEPROM_update addrInitialized eepromInitialized (eeprom st0)\<rparr>)
                 else st0);
          st2 = st1\<lparr>setTemp := byte_to_float (eeprom st1 addrSetTemp)\<rparr>
      in st2\<lparr>currentTemp := probe\<rparr>)"

section \<open>The temperature sampler\<close>

text \<open>
  Lines 223-231. \<open>tpoll\<close> is the time of the clock read of line 225, \<open>tread\<close> that of
  line 229, \<open>probe\<close> the temperature the probe reports. The result pairs the returned
  flag with the state.
\<close>

definition readTemperatureWithInterval ::
  "nat \<Rightarrow> nat \<Rightarrow> real \<Rightarrow> incubator \<Rightarrow> bool \<times> incubator" where
  "readTemperatureWithInterval tpoll tread probe st =
     (if millis tpoll - readTempMillis st < readInterval then (False, st)
      else (True, st\<lparr>currentTemp := probe, readTempMillis := millis tread\<rparr>))"

section \<open>The heater\<close>

text \<open>Lines 233-238 and 240-245; \<open>t\<close> is the time of the clock read.\<close>

definition turnHeaterOn :: "nat \<Rightarrow> incubator \<Rightarrow> incubator" where
  "turnHeaterOn t st = st\<lparr>heaterIsOn := True, relayPin := True, heaterOnMillis := millis t\<rparr>"

definition turnHeaterOff :: "nat \<Rightarrow> incubator \<Rightarrow> incubator" where
  "turnHeaterOff t st = st\<lparr>heaterIsOn := False, relayPin := False, heaterOffMillis := millis t\<rparr>"

text \<open>
  Lines 104-124 of \<^verbatim>\<open>loop\<close> (lines 360-379 of the second variant are the same text).
  \<open>now\<close> is the time of the clock read in the dwell tests of lines 109 and 114: at most
  one of the two is evaluated in a cycle, since the first needs the heater off and the
  second needs it on. \<open>tsw\<close> is the time of the clock read inside \<^verbatim>\<open>turnHeaterOn\<close> or
  \<^verbatim>\<open>turnHeaterOff\<close>. The difference of line 104 and the sum of line 109 are float
  operations; the comparisons are exact.
\<close>

definition heaterControl :: "nat \<Rightarrow> nat \<Rightarrow> incubator \<Rightarrow> incubator" where
  "heaterControl now tsw st0 =
     (let st = st0\<lparr>overShootControlActive :=
                        (float_sub (setTemp st0) (currentTemp st0) \<le> tempDifference)\<rparr>
      in if overShootControlActive st then
           (if float_add (currentTemp st) tempThreshold < setTemp st \<and> \<not> heaterIsOn st
                 \<and> millis now - heaterOffMillis st > OnOffInterval
            then turnHeaterOn tsw st
            else if heaterIsOn st
                 \<and> (currentTemp st \<ge> setTemp st \<or> millis now - heaterOnMillis st > OnOffInterval)
            then turnHeaterOff tsw st
            else st)
         else if currentTemp st < setTemp st \<and> \<not> heaterIsOn st
         then turnHeaterOn tsw st
         else st)"

section \<open>The control cycle of the first variant\<close>

text \<open>
  What one pass of \<^verbatim>\<open>loop\<close> (lines 78-127) takes from outside: the answers of the four
  button queries, by call site, the time of every clock read it can make, the probe's
  temperature, and the seconds \<^verbatim>\<open>now()\<close> of TimeLib returns. A field is read only when
  the pass reaches its call.
\<close>

record cycle =
  leftPressed81 :: bool
  rightPressed81 :: bool
  leftPressed87 :: bool
  rightPressed92 :: bool
  tGesture :: nat
  tSave :: nat
  tPoll :: nat
  tRead :: nat
  probeTemp :: real
  tDwell :: nat
  tSwitch :: nat
  clockSeconds :: nat

text \<open>
  Lines 81-96: the gestures. \<^verbatim>\<open>setTemp--\<close> and \<^verbatim>\<open>setTemp++\<close> are float operations.
\<close>

definition saveGesture :: "cycle \<Rightarrow> incubator \<Rightarrow> bool" where
  "saveGesture c st =
     (leftPressed81 c \<and> rightPressed81 c
      \<and> millis (tGesture c) - lastSaveSettingsMillis st > saveSettingsInterval)"

definition gestures_v1 :: "cycle \<Rightarrow> incubator \<Rightarrow> incubator" where
  "gestures_v1 c st =
     (if saveGesture c st then SaveSettings_v1 (tSave c) st
      else if leftPressed87 c then st\<lparr>setTemp := float_sub (setTemp st) 1\<rparr>
      else if rightPressed92 c then st\<lparr>setTemp := float_add (setTemp st) 1\<rparr>
      else st)"

text \<open>Lines 98-102: the sample, and the remembered previous reading.\<close>

definition sample_v1 :: "cycle \<Rightarrow> incubator \<Rightarrow> incubator" where
  "sample_v1 c st =
     (case readTemperatureWithInterval (tPoll c) (tRead c) (probeTemp c) st of
        (fresh, st') \<Rightarrow>
          if fresh \<and> prevTemp st' \<noteq> currentTemp st' then st'\<lparr>prevTemp := currentTemp st'\<rparr>
          else st')"

text \<open>
  Lines 138-155: apart from the LCD, \<^verbatim>\<open>PrintTimeWithInterval\<close> only remembers the second
  it last printed. The difference of line 141 is computed in \<^verbatim>\<open>unsigned long\<close>.
\<close>

definition PrintTimeWithInterval :: "nat \<Rightarrow> incubator \<Rightarrow> incubator" where
  "PrintTimeWithInterval secs st =
     (if (of_nat secs :: ulong) - printTimeMillis st < 1 then st
      else st\<lparr>printTimeMillis := of_nat secs\<rparr>)"

definition loop_v1 :: "cycle \<Rightarrow> incubator \<Rightarrow> incubator" where
  "loop_v1 c st =
     PrintTimeWithInterval (clockSeconds c)
       (heaterControl (tDwell c) (tSwitch c) (sample_v1 c (gestures_v1 c st)))"

text \<open>The sketch after \<^verbatim>\<open>setup\<close>: one pass of \<^verbatim>\<open>loop\<close> after the other.\<close>

fun run_v1 :: "incubator \<Rightarrow> cycle list \<Rightarrow> incubator" where
  "run_v1 st [] = st"
| "run_v1 st (c # cs) = run_v1 (loop_v1 c st) cs"

text \<open>
  The clock reads of a run are in time order when each read is no earlier than the one
  before it, from the time \<open>t\<close> on.
\<close>

fun chronological :: "nat \<Rightarrow> cycle list \<Rightarrow> bool" where
  "chronological t [] = True"
| "chronological t (c # cs) =
     (t \<le> tGesture c \<and> tGesture c \<le> tSave c \<and> tSave c \<le> tPoll c \<and> tPoll c \<le> tRead c
      \<and> tRead c \<le> tDwell c \<and> tDwell c \<le> tSwitch c \<and> chronological (tSwitch c) cs)"

text \<open>
  What the save log and the save timestamp satisfy at time \<open>t\<close> of a run: any two logged
  saves are more than \<^verbatim>\<open>saveSettingsInterval\<close> apart, none is later than \<open>t\<close>, and the
  timestamp is the clock value of the latest one.
\<close>

definition saveHistory :: "nat \<Rightarrow> incubator \<Rightarrow> bool" where
  "saveHistory t st =
     (sorted_wrt (\<lambda>a b. a + unat saveSettingsInterval < b) (saveLog st)
      \<and> (\<forall>a \<in> set (saveLog st). a \<le> t)
      \<and> (saveLog st \<noteq> [] \<longrightarrow> lastSaveSettingsMillis st = millis (last (saveLog st))))"

section \<open>The transition function as the specification words it\<close>

datatype HeaterState = Off | On

definition heaterState :: "incubator \<Rightarrow> HeaterState" where
  "heaterState st = (if heaterIsOn st then On else Off)"

definition hysteresisBand :: real where
  "hysteresisBand = 2"

definition turnOnThreshold :: real where
  "turnOnThreshold = float_round (3 / 10)"

definition minDwellInterval :: ulong where
  "minDwellInterval = 30000"

text \<open>
  Section 4.4 of the specification, clause by clause: the guard, the two transitions
  under the guard, the one transition outside it, and "hold" otherwise. Temperatures
  and setpoint are floats there too, so its \<open>-\<close> and \<open>+\<close> are the float operations.
\<close>

definition overshootGuardActive :: "real \<Rightarrow> real \<Rightarrow> bool" where
  "overshootGuardActive temp setpoint = (float_sub setpoint temp \<le> hysteresisBand)"

definition specTransition ::
  "real \<Rightarrow> real \<Rightarrow> HeaterState \<Rightarrow> ulong \<Rightarrow> ulong \<Rightarrow> ulong \<Rightarrow> HeaterState" where
  "specTransition temp setpoint h lastOnAt lastOffAt now =
     (if overshootGuardActive temp setpoint then
        (if h = Off \<and> float_add temp turnOnThreshold < setpoint
              \<and> now - lastOffAt > minDwellInterval
         then On
         else if h = On \<and> (temp \<ge> setpoint \<or> now - lastOnAt > minDwellInterval)
         then Off
         else h)
      else if h = Off \<and> temp < setpoint then On
      else h)"

section \<open>States used as examples\<close>

text \<open>
  A device that has booted before (sentinel and a set temperature of 22 in the EEPROM),
  a moment after \<^verbatim>\<open>setup\<close>, with the probe at the given temperature.
\<close>

definition booted :: "real \<Rightarrow> incubator" where
  "booted temp = setup_v1 0 temp (power_on ((\<lambda>_. 255)(0 := 101, 1 := 22)))"

text \<open>The same device heating since boot, and the same device switched off at 1000 ms.\<close>

definition heatingSinceBoot :: "real \<Rightarrow> incubator" where
  "heatingSinceBoot temp = turnHeaterOn 0 (booted temp)"

definition switchedOffAt1000 :: "real \<Rightarrow> incubator" where
  "switchedOffAt1000 temp = turnHeaterOff 1000 (booted temp)"

text \<open>
  EEPROM contents: a device never programmed (every cell erased), and one that has stored
  a set temperature of 37.
\<close>

definition erased :: "nat \<Rightarrow> byte" where
  "erased = (\<lambda>_. 255)"

definition configured37 :: "nat \<Rightarrow> byte" where
  "configured37 = (\<lambda>_. 255)(0 := 101, 1 := 37)"

text \<open>
  The booted device with its set temperature at 300, and at 22.5.
\<close>

definition setpoint300 :: incubator where
  "setpoint300 = (booted 20)\<lparr>setTemp := 300\<rparr>"

definition setpoint22_5 :: incubator where
  "setpoint22_5 = (booted 20)\<lparr>setTemp := 45 / 2\<rparr>"

text \<open>
  A cycle in which both buttons answer "pressed" at time \<open>t\<close>, with the later clock reads
  a millisecond apart, and a first boot at 10 ms followed by two such cycles.
\<close>

definition pressBoth :: "nat \<Rightarrow> cycle" where
  "pressBoth t =
     \<lparr>leftPressed81 = True, rightPressed81 = True, leftPressed87 = False,
      rightPressed92 = False, tGesture = t, tSave = t + 1, tPoll = t + 2, tRead = t + 3,
      probeTemp = 20, tDwell = t + 4, tSwitch = t + 5, clockSeconds = t div 1000\<rparr>"

definition firstBootRun :: incubator where
  "firstBootRun =
     run_v1 (setup_v1 10 20 (power_on erased)) [pressBoth 3000, pressBoth 6000]"

text \<open>
  A reading \<open>2 ^ -30\<close> of a degree below zero, and the device switched off at 1000 ms with
  that reading and a set temperature of 2.
\<close>

definition justBelowZero :: real where
  "justBelowZero = - (1 / 2 ^ 30)"

definition roundingEdge :: incubator where
  "roundingEdge = (switchedOffAt1000 justBelowZero)\<lparr>setTemp := 2\<rparr>"

text \<open>
  The booted device with its set temperature at \<open>2 ^ 24\<close>. A cycle in which only the query
  of line 92 answers "pressed", and one in which only the query of line 87 does.
\<close>

definition setpoint16777216 :: incubator where
  "setpoint16777216 = (booted 20)\<lparr>setTemp := 16777216\<rparr>"

definition pressRight :: "nat \<Rightarrow> cycle" where
  "pressRight t =
     \<lparr>leftPressed81 = False, rightPressed81 = False, leftPressed87 = False,
      rightPressed92 = True, tGesture = t, tSave = t + 1, tPoll = t + 2, tRead = t + 3,
      probeTemp = 20, tDwell = t + 4, tSwitch = t + 5, clockSeconds = t div 1000\<rparr>"

definition pressLeft :: "nat \<Rightarrow> cycle" where
  "pressLeft t =
     \<lparr>leftPressed81 = False, rightPressed81 = False, leftPressed87 = True,
      rightPressed92 = False, tGesture = t, tSave = t + 1, tPoll = t + 2, tRead = t + 3,
      probeTemp = 20, tDwell = t + 4, tSwitch = t + 5, clockSeconds = t div 1000\<rparr>"

text \<open>
  A cycle without any button, with the probe at the given temperature, and the booted
  device at 19 degrees after one such cycle.
\<close>

definition idle :: "nat \<Rightarrow> real \<Rightarrow> cycle" where
  "idle t temp =
     \<lparr>leftPressed81 = False, rightPressed81 = False, leftPressed87 = False,
      rightPressed92 = False, tGesture = t, tSave = t + 1, tPoll = t + 2, tRead = t + 3,
      probeTemp = temp, tDwell = t + 4, tSwitch = t + 5, clockSeconds = t div 1000\<rparr>"

definition heatingRun :: incubator where
  "heatingRun = run_v1 (booted 19) [idle 100 19]"

section \<open>Single-precision rounding\<close>

text \<open>The exponent search returns the exponent of the binade.\<close>

lemma exponent_from_range: "-126 \<le> exponent_from n a \<and> exponent_from n a \<le> int n - 126"
  by (induction n) auto

lemma exponent_from_below:
  "exponent_from n a \<noteq> -126 \<Longrightarrow> 2 powi (exponent_from n a) \<le> a"
  by (induction n) (auto split: if_splits)

lemma exponent_from_greatest:
  "2 powi k \<le> a \<Longrightarrow> -126 \<le> k \<Longrightarrow> k \<le> int n - 126 \<Longrightarrow> k \<le> exponent_from n a"
proof (induction n)
  case 0
  then show ?case by simp
next
  case (Suc n)
  show ?case
  proof (cases "2 powi (int n - 125) \<le> a")
    case True
    with Suc.prems show ?thesis by simp
  next
    case False
    with Suc.prems(1) have "k \<noteq> int n - 125"
      by auto
    with Suc.prems have "k \<le> int n - 126"
      by simp
    with Suc.IH Suc.prems False show ?thesis
      by simp
  qed
qed

lemma pow2_less_imp_less:
  fixes a b :: int
  assumes "(2::real) powi a < 2 powi b"
  shows "a < b"
proof (rule ccontr)
  assume "\<not> a < b"
  then have "b \<le> a" by simp
  then have "(2::real) powi b \<le> 2 powi a"
    by (intro power_int_increasing) simp_all
  with assms show False by simp
qed

lemma float_exponent_range: "-126 \<le> float_exponent x \<and> float_exponent x \<le> 127"
  using exponent_from_range [of 253 "\<bar>x\<bar>"] by (simp add: float_exponent_def)

lemma float_exponent_below:
  "float_exponent x \<noteq> -126 \<Longrightarrow> 2 powi (float_exponent x) \<le> \<bar>x\<bar>"
  unfolding float_exponent_def by (rule exponent_from_below)

lemma float_exponent_greatest:
  "2 powi k \<le> \<bar>x\<bar> \<Longrightarrow> -126 \<le> k \<Longrightarrow> k \<le> 127 \<Longrightarrow> k \<le> float_exponent x"
  unfolding float_exponent_def by (rule exponent_from_greatest) simp_all

lemma float_exponent_eq:
  assumes lo: "2 powi k \<le> \<bar>x\<bar>" and hi: "\<bar>x\<bar> < 2 powi (k + 1)"
    and range: "-126 \<le> k" "k \<le> 127"
  shows "float_exponent x = k"
proof -
  from float_exponent_greatest [OF lo range] have ge: "k \<le> float_exponent x" .
  have "float_exponent x \<le> k"
  proof (cases "float_exponent x = -126")
    case True
    with range show ?thesis by simp
  next
    case False
    from float_exponent_below [OF False] hi
    have "(2::real) powi (float_exponent x) < 2 powi (k + 1)"
      by simp
    then have "float_exponent x < k + 1"
      by (rule pow2_less_imp_less)
    then show ?thesis by simp
  qed
  with ge show ?thesis by simp
qed

lemma float_ulp_pos: "0 < float_ulp x"
  by (simp add: float_ulp_def)

lemma round_even_of_int: "round_even (of_int m) = m"
  by (simp add: round_even_def)

lemma round_even_ge_floor: "\<lfloor>r\<rfloor> \<le> round_even r"
  by (simp add: round_even_def)

lemma round_even_le_floor_plus_1: "round_even r \<le> \<lfloor>r\<rfloor> + 1"
  by (simp add: round_even_def)

lemma round_even_ge:
  assumes "of_int m \<le> r"
  shows "m \<le> round_even r"
proof -
  from assms have "m \<le> \<lfloor>r\<rfloor>"
    by (simp add: le_floor_iff)
  with round_even_ge_floor [of r] show ?thesis
    by simp
qed

lemma round_even_le:
  assumes "r \<le> of_int m"
  shows "round_even r \<le> m"
proof (cases "\<lfloor>r\<rfloor> < m")
  case True
  with round_even_le_floor_plus_1 [of r] show ?thesis
    by simp
next
  case False
  from assms have "\<lfloor>r\<rfloor> \<le> m"
    by (simp add: floor_le_iff)
  with False have fl: "\<lfloor>r\<rfloor> = m"
    by simp
  then have "of_int m \<le> r"
    using of_int_floor_le [of r] by simp
  with assms have "r = of_int m"
    by simp
  then show ?thesis
    by (simp add: round_even_of_int)
qed

lemma float_round_exact:
  assumes "x / float_ulp x = of_int m"
  shows "float_round x = x"
proof -
  from float_ulp_pos [of x] have "float_ulp x \<noteq> 0"
    by simp
  moreover from assms have "float_round x = (x / float_ulp x) * float_ulp x"
    by (simp add: float_round_def round_even_of_int)
  ultimately show ?thesis
    by simp
qed

lemma float_round_eq:
  assumes "2 powi k \<le> \<bar>x\<bar>" and "\<bar>x\<bar> < 2 powi (k + 1)" and "-126 \<le> k" and "k \<le> 127"
    and "round_even (x / 2 powi (k - 23)) = m"
  shows "float_round x = of_int m * 2 powi (k - 23)"
  using float_exponent_eq [OF assms(1-4)] assms(5)
  by (simp add: float_round_def float_ulp_def)

lemma float_round_nonpos:
  assumes "x \<le> 0"
  shows "float_round x \<le> 0"
proof -
  from assms float_ulp_pos [of x] have "x / float_ulp x \<le> of_int 0"
    by (simp add: divide_nonpos_pos)
  then have "round_even (x / float_ulp x) \<le> 0"
    by (rule round_even_le)
  then have "real_of_int (round_even (x / float_ulp x)) \<le> 0"
    by simp
  with float_ulp_pos [of x] show ?thesis
    unfolding float_round_def by (simp add: mult_nonpos_nonneg)
qed

text \<open>Rounding does not leave the binade of its argument.\<close>

lemma float_round_ge_pow2:
  assumes "2 powi (float_exponent x) \<le> x"
  shows "2 powi (float_exponent x) \<le> float_round x"
proof -
  let ?e = "float_exponent x"
  have "(2::real) powi (23 + (?e - 23)) = 2 powi 23 * 2 powi (?e - 23)"
    by (rule power_int_add) simp
  then have split: "(2::real) powi ?e = 8388608 * 2 powi (?e - 23)"
    by simp
  with assms float_ulp_pos [of x] have "of_int 8388608 \<le> x / float_ulp x"
    by (simp add: float_ulp_def pos_le_divide_eq)
  then have "8388608 \<le> round_even (x / float_ulp x)"
    by (rule round_even_ge)
  then have "real_of_int 8388608 \<le> real_of_int (round_even (x / float_ulp x))"
    by (simp only: of_int_le_iff)
  with float_ulp_pos [of x]
  have "real_of_int 8388608 * float_ulp x \<le> float_round x"
    unfolding float_round_def by (simp only: mult_le_cancel_right_pos)
  with split show ?thesis
    by (simp add: float_ulp_def)
qed

lemma float_round_le_pow2:
  assumes "x \<le> 2 powi (float_exponent x + 1)"
  shows "float_round x \<le> 2 powi (float_exponent x + 1)"
proof -
  let ?e = "float_exponent x"
  have "(2::real) powi (24 + (?e - 23)) = 2 powi 24 * 2 powi (?e - 23)"
    by (rule power_int_add) simp
  then have split: "(2::real) powi (?e + 1) = 16777216 * 2 powi (?e - 23)"
    by (simp add: add.commute)
  with assms float_ulp_pos [of x] have "x / float_ulp x \<le> of_int 16777216"
    by (simp add: float_ulp_def pos_divide_le_eq)
  then have "round_even (x / float_ulp x) \<le> 16777216"
    by (rule round_even_le)
  then have "real_of_int (round_even (x / float_ulp x)) \<le> real_of_int 16777216"
    by (simp only: of_int_le_iff)
  with float_ulp_pos [of x]
  have "float_round x \<le> real_of_int 16777216 * float_ulp x"
    unfolding float_round_def by (simp only: mult_le_cancel_right_pos)
  with split show ?thesis
    by (simp add: float_ulp_def)
qed

text \<open>Whole numbers up to \<open>2 ^ 24\<close> in magnitude are binary32 numbers.\<close>

lemma float_round_int:
  assumes "\<bar>n\<bar> \<le> 16777216"
  shows "float_round (of_int n) = of_int n"
proof (cases "n = 0")
  case True
  have "(0::real) / float_ulp 0 = of_int 0"
    by simp
  from float_round_exact [OF this] True show ?thesis
    by simp
next
  case False
  let ?x = "real_of_int n"
  let ?e = "float_exponent ?x"
  from False have one: "2 powi 0 \<le> \<bar>?x\<bar>"
    by (simp flip: of_int_abs)
  from float_exponent_greatest [OF one] have e0: "0 \<le> ?e"
    by simp
  then have "?e \<noteq> -126"
    by simp
  from float_exponent_below [OF this] have below: "2 powi ?e \<le> \<bar>?x\<bar>" .
  from assms have top: "\<bar>?x\<bar> \<le> 2 powi 24"
    by (simp flip: of_int_abs)
  from below top have "(2::real) powi ?e \<le> 2 powi 24"
    by simp
  then have e24: "?e \<le> 24"
    by (rule power_int_le_imp_le_exp [rotated]) simp_all
  show ?thesis
  proof (cases "?e = 24")
    case True
    with below top have "\<bar>?x\<bar> = 16777216"
      by simp
    then have "\<bar>n\<bar> = 16777216"
      by (simp flip: of_int_abs)
    then have "n = 16777216 \<or> n = -16777216"
      by arith
    then have "?x / float_ulp ?x = of_int (n div 2)"
      using True by (auto simp add: float_ulp_def)
    then show ?thesis
      by (rule float_round_exact)
  next
    case False
    with e24 have le: "?e \<le> 23"
      by simp
    then have "(2::real) powi (?e - 23) = 1 / 2 ^ nat (23 - ?e)"
      by (simp add: power_int_def field_simps)
    then have "?x / float_ulp ?x = of_int (n * 2 ^ nat (23 - ?e))"
      by (simp add: float_ulp_def)
    then show ?thesis
      by (rule float_round_exact)
  qed
qed

lemma float_round_numeral:
  "(numeral k :: int) \<le> 16777216 \<Longrightarrow> float_round (numeral k) = numeral k"
  using float_round_int [of "numeral k"] by simp

lemma float_round_neg_numeral:
  "(numeral k :: int) \<le> 16777216 \<Longrightarrow> float_round (- numeral k) = - numeral k"
  using float_round_int [of "- numeral k"] by simp

lemma float_round_0: "float_round 0 = 0"
  using float_round_int [of 0] by simp

lemma float_round_1: "float_round 1 = 1"
  using float_round_int [of 1] by simp

lemma float_round_neg_1: "float_round (- 1) = - 1"
  using float_round_int [of "- 1"] by simp

lemmas float_round_whole =
  float_round_numeral float_round_neg_numeral float_round_0 float_round_1 float_round_neg_1

text \<open>Rounding does not cross 2, and the two values the examples need.\<close>

lemma float_round_le_2:
  assumes "x \<le> 2"
  shows "float_round x \<le> 2"
proof (cases "x \<le> 0")
  case True
  from float_round_nonpos [OF this] show ?thesis
    by simp
next
  case False
  then have pos: "0 < x" by simp
  show ?thesis
  proof (cases "x = 2")
    case True
    then show ?thesis
      by (simp add: float_round_whole)
  next
    case False
    with assms have lt: "\<bar>x\<bar> < 2 powi 1"
      using pos by simp
    have e: "float_exponent x \<le> 0"
    proof (cases "float_exponent x = -126")
      case True
      then show ?thesis by simp
    next
      case False
      from float_exponent_below [OF this] lt
      have "(2::real) powi float_exponent x < 2 powi 1"
        by simp
      then have "float_exponent x < 1"
        by (rule pow2_less_imp_less)
      then show ?thesis by simp
    qed
    have "\<not> 2 powi (float_exponent x + 1) \<le> \<bar>x\<bar>"
    proof
      assume "2 powi (float_exponent x + 1) \<le> \<bar>x\<bar>"
      from float_exponent_greatest [OF this] e float_exponent_range [of x]
      show False by simp
    qed
    with pos have "x \<le> 2 powi (float_exponent x + 1)"
      by simp
    from float_round_le_pow2 [OF this]
    have "float_round x \<le> 2 powi (float_exponent x + 1)" .
    also from e have "(2::real) powi (float_exponent x + 1) \<le> 2 powi 1"
      by (intro power_int_increasing) simp_all
    finally show ?thesis
      by simp
  qed
qed

lemma float_round_ge_2:
  assumes "2 \<le> x"
  shows "2 \<le> float_round x"
proof -
  from assms have "2 powi 1 \<le> \<bar>x\<bar>"
    by simp
  from float_exponent_greatest [OF this] have e: "1 \<le> float_exponent x"
    by simp
  then have "float_exponent x \<noteq> -126"
    by simp
  from float_exponent_below [OF this] assms have "2 powi float_exponent x \<le> x"
    by simp
  from float_round_ge_pow2 [OF this]
  have ge: "2 powi float_exponent x \<le> float_round x" .
  from e have "(2::real) powi 1 \<le> 2 powi float_exponent x"
    by (intro power_int_increasing) simp_all
  with ge show ?thesis
    by simp
qed

lemma float_round_16777217: "float_round 16777217 = 16777216"
  using float_round_eq [of 24 16777217 8388608] by (simp add: round_even_def)

lemma float_round_3_10: "float_round (3 / 10) = 5033165 / 16777216"
  using float_round_eq [of "-2" "3 / 10" 10066330] by (simp add: round_even_def)

text \<open>The definitions an example state unfolds to.\<close>

lemmas example_defs =
  booted_def setup_v1_def power_on_def SaveSettings_v1_def EEPROM_update_def
  float_to_byte_def float_trunc_def byte_to_float_def addrInitialized_def addrSetTemp_def
  eepromInitialized_def millis_def turnHeaterOn_def turnHeaterOff_def

lemmas control_defs =
  heaterControl_def Let_def turnHeaterOn_def turnHeaterOff_def tempDifference_def
  OnOffInterval_def float_sub_def float_round_whole

text \<open>The definitions one pass of the loop unfolds to.\<close>

lemmas cycle_defs =
  loop_v1_def gestures_v1_def saveGesture_def sample_v1_def readTemperatureWithInterval_def
  PrintTimeWithInterval_def readInterval_def

section \<open>The heater decision\<close>

lemma heaterState_On [simp]: "(heaterState st = On) = heaterIsOn st"
  by (simp add: heaterState_def)

lemma heaterState_Off [simp]: "(heaterState st = Off) = (\<not> heaterIsOn st)"
  by (simp add: heaterState_def)

text \<open>
  C1. In every control cycle the heater state after lines 104-124 is the state that the
  two-regime transition function of section 4.4 computes from the current temperature,
  the setpoint, the heater state, the two transition timestamps and the clock.
\<close>

theorem heaterControl_refines_specTransition:
  "heaterState (heaterControl now tsw st) =
     specTransition (currentTemp st) (setTemp st) (heaterState st)
       (heaterOnMillis st) (heaterOffMillis st) (millis now)"
  by (simp add: heaterControl_def specTransition_def overshootGuardActive_def Let_def
      turnHeaterOn_def turnHeaterOff_def heaterState_def hysteresisBand_def tempDifference_def
      turnOnThreshold_def tempThreshold_def minDwellInterval_def OnOffInterval_def)

text \<open>
  C2, as stated, fails. A device 3 degrees below its setpoint of 22 is outside the guard
  band; its heater has been on for 40 s, more than the 30 s of \<^verbatim>\<open>OnOffInterval\<close>, and the
  control block leaves it on: the cutoff of line 114 is inside the branch of line 106.
\<close>

theorem safety_cutoff_everywhere_counterexample:
  "heaterIsOn (heatingSinceBoot 19)
   \<and> millis 40000 - heaterOnMillis (heatingSinceBoot 19) > OnOffInterval
   \<and> currentTemp (heatingSinceBoot 19) < setTemp (heatingSinceBoot 19)
   \<and> heaterIsOn (heaterControl 40000 40001 (heatingSinceBoot 19))"
  by (simp add: heatingSinceBoot_def example_defs control_defs)

text \<open>
  The guard of line 104 is active whenever the setpoint is at most \<^verbatim>\<open>tempDifference\<close>
  above the reading, and under the guard as line 104 computes it the cutoff applies.
\<close>

lemma guard_active_when_close:
  "setTemp st - currentTemp st \<le> tempDifference \<Longrightarrow>
     float_sub (setTemp st) (currentTemp st) \<le> tempDifference"
  by (simp add: float_sub_def tempDifference_def float_round_le_2)

lemma safety_cutoff_guard_computed:
  assumes "heaterIsOn st"
    and "float_sub (setTemp st) (currentTemp st) \<le> tempDifference"
    and "millis now - heaterOnMillis st > OnOffInterval"
  shows "\<not> heaterIsOn (heaterControl now tsw st)"
  using assms by (simp add: heaterControl_def Let_def turnHeaterOn_def turnHeaterOff_def)

text \<open>
  C2, amended. When the heater is on, the overshoot guard is active (the setpoint is at
  most \<^verbatim>\<open>tempDifference\<close> above the reading) and the heater has been on for more than
  \<^verbatim>\<open>OnOffInterval\<close>, the control block turns the heater off, also below the setpoint.
\<close>

theorem safety_cutoff_under_guard:
  assumes "heaterIsOn st"
    and "setTemp st - currentTemp st \<le> tempDifference"
    and "millis now - heaterOnMillis st > OnOffInterval"
  shows "\<not> heaterIsOn (heaterControl now tsw st)"
  using assms(1) guard_active_when_close [OF assms(2)] assms(3)
  by (rule safety_cutoff_guard_computed)

theorem safety_cutoff_under_guard_witness:
  "heaterIsOn (heatingSinceBoot 21)
   \<and> setTemp (heatingSinceBoot 21) - currentTemp (heatingSinceBoot 21) \<le> tempDifference
   \<and> millis 40000 - heaterOnMillis (heatingSinceBoot 21) > OnOffInterval
   \<and> currentTemp (heatingSinceBoot 21) < setTemp (heatingSinceBoot 21)
   \<and> \<not> heaterIsOn (heaterControl 40000 40001 (heatingSinceBoot 21))"
proof -
  have on: "heaterIsOn (heatingSinceBoot 21)"
    by (simp add: heatingSinceBoot_def example_defs)
  have near: "setTemp (heatingSinceBoot 21) - currentTemp (heatingSinceBoot 21) \<le> tempDifference"
    by (simp add: heatingSinceBoot_def example_defs tempDifference_def)
  have late: "millis 40000 - heaterOnMillis (heatingSinceBoot 21) > OnOffInterval"
    by (simp add: heatingSinceBoot_def example_defs OnOffInterval_def)
  have below: "currentTemp (heatingSinceBoot 21) < setTemp (heatingSinceBoot 21)"
    by (simp add: heatingSinceBoot_def example_defs)
  from safety_cutoff_under_guard [OF on near late, of 40001] on near late below
  show ?thesis by simp
qed

text \<open>
  Line 104 decides the regime by the rounded difference. It exceeds \<^verbatim>\<open>tempDifference\<close>
  exactly when the reading is more than \<^verbatim>\<open>tempDifference\<close> below the setpoint and the
  difference does not round to \<^verbatim>\<open>tempDifference\<close> itself.
\<close>

lemma guard_inactive_iff:
  "(tempDifference < float_sub sp temp)
     = (temp < sp - tempDifference \<and> float_sub sp temp \<noteq> tempDifference)"
proof
  assume far: "tempDifference < float_sub sp temp"
  have "\<not> sp - temp \<le> 2"
  proof
    assume "sp - temp \<le> 2"
    from float_round_le_2 [OF this] far show False
      by (simp add: float_sub_def tempDifference_def)
  qed
  with far show "temp < sp - tempDifference \<and> float_sub sp temp \<noteq> tempDifference"
    by (simp add: tempDifference_def)
next
  assume "temp < sp - tempDifference \<and> float_sub sp temp \<noteq> tempDifference"
  then have "2 \<le> sp - temp" and ne: "float_sub sp temp \<noteq> 2"
    by (simp_all add: tempDifference_def)
  from float_round_ge_2 [OF this(1)] ne show "tempDifference < float_sub sp temp"
    by (simp add: float_sub_def tempDifference_def)
qed

lemma float_sub_2_justBelowZero: "float_sub 2 justBelowZero = 2"
  using float_round_eq [of 1 "2 - justBelowZero" 8388608]
  by (simp add: float_sub_def justBelowZero_def round_even_def)

lemma tempThreshold_value: "tempThreshold = 5033165 / 16777216"
  by (simp add: tempThreshold_def float_round_3_10)

lemma float_add_justBelowZero_tempThreshold:
  "float_add justBelowZero tempThreshold = 5033165 / 16777216"
  using float_round_eq [of "-2" "justBelowZero + 5033165 / 16777216" 10066330]
  by (simp add: float_add_def tempThreshold_value justBelowZero_def round_even_def)

text \<open>
  C3, as stated, fails. With the set temperature at 2 and the reading \<open>2 ^ -30\<close> below
  zero, the reading is more than 2 below the setpoint, but line 104 rounds the
  difference \<open>2 + 2 ^ -30\<close> to 2: the guard is active, the threshold test of line 109
  passes, and the heater, switched off 1 ms ago, stays off for the dwell time.
\<close>

theorem fast_recovery_counterexample:
  "currentTemp roundingEdge < setTemp roundingEdge - tempDifference
   \<and> \<not> heaterIsOn roundingEdge
   \<and> float_sub (setTemp roundingEdge) (currentTemp roundingEdge) = tempDifference
   \<and> float_add (currentTemp roundingEdge) tempThreshold < setTemp roundingEdge
   \<and> \<not> millis 1001 - heaterOffMillis roundingEdge > OnOffInterval
   \<and> \<not> heaterIsOn (heaterControl 1001 1002 roundingEdge)"
proof -
  have temp: "currentTemp roundingEdge = justBelowZero" and sp: "setTemp roundingEdge = 2"
    and off: "\<not> heaterIsOn roundingEdge"
    and stamp: "heaterOffMillis roundingEdge = 1000"
    by (simp_all add: roundingEdge_def switchedOffAt1000_def example_defs Let_def)
  have below: "justBelowZero < 2 - tempDifference"
    by (simp add: justBelowZero_def tempDifference_def)
  have guard: "float_sub 2 justBelowZero = tempDifference"
    by (simp add: float_sub_2_justBelowZero tempDifference_def)
  have threshold: "float_add justBelowZero tempThreshold < 2"
    by (simp add: float_add_justBelowZero_tempThreshold)
  have early: "\<not> millis 1001 - (1000 :: ulong) > OnOffInterval"
    by (simp add: millis_def OnOffInterval_def)
  have stays: "\<not> heaterIsOn (heaterControl 1001 1002 roundingEdge)"
    using off early
    by (simp add: heaterControl_def Let_def temp sp stamp guard turnHeaterOn_def turnHeaterOff_def)
  from below guard threshold early off stays show ?thesis
    by (simp add: temp sp stamp)
qed

text \<open>
  C3, amended. When the reading is more than \<^verbatim>\<open>tempDifference\<close> below the setpoint, the
  single-precision difference of line 104 does not round to \<^verbatim>\<open>tempDifference\<close> itself
  (so the guard is inactive) and the heater is off, the control block turns the heater
  on, whatever the clock and the two transition timestamps are.
\<close>

theorem fast_recovery_ignores_dwell:
  assumes "currentTemp st < setTemp st - tempDifference"
    and "float_sub (setTemp st) (currentTemp st) \<noteq> tempDifference"
    and "\<not> heaterIsOn st"
  shows "heaterIsOn (heaterControl now tsw st)"
proof -
  from assms(1,2) have "tempDifference < float_sub (setTemp st) (currentTemp st)"
    by (simp add: guard_inactive_iff)
  moreover from assms(1) have "currentTemp st < setTemp st"
    by (simp add: tempDifference_def)
  ultimately show ?thesis
    using assms(3) by (simp add: heaterControl_def Let_def turnHeaterOn_def turnHeaterOff_def)
qed

theorem fast_recovery_ignores_dwell_witness:
  "currentTemp (switchedOffAt1000 19) < setTemp (switchedOffAt1000 19) - tempDifference
   \<and> float_sub (setTemp (switchedOffAt1000 19)) (currentTemp (switchedOffAt1000 19))
        \<noteq> tempDifference
   \<and> \<not> heaterIsOn (switchedOffAt1000 19)
   \<and> \<not> millis 1001 - heaterOffMillis (switchedOffAt1000 19) > OnOffInterval
   \<and> heaterIsOn (heaterControl 1001 1002 (switchedOffAt1000 19))"
proof -
  have far: "currentTemp (switchedOffAt1000 19) < setTemp (switchedOffAt1000 19) - tempDifference"
    by (simp add: switchedOffAt1000_def example_defs tempDifference_def)
  have exact: "float_sub (setTemp (switchedOffAt1000 19)) (currentTemp (switchedOffAt1000 19))
      \<noteq> tempDifference"
    by (simp add: switchedOffAt1000_def example_defs tempDifference_def float_sub_def
        float_round_whole)
  have off: "\<not> heaterIsOn (switchedOffAt1000 19)"
    by (simp add: switchedOffAt1000_def example_defs)
  have early: "\<not> millis 1001 - heaterOffMillis (switchedOffAt1000 19) > OnOffInterval"
    by (simp add: switchedOffAt1000_def example_defs OnOffInterval_def)
  from fast_recovery_ignores_dwell [OF far exact off, of 1001 1002] far exact off early
  show ?thesis by simp
qed

section \<open>Persistence of the setpoint\<close>

text \<open>
  C4. When the cell at address 0 does not hold the sentinel 101, \<^verbatim>\<open>setup\<close> stores the
  sentinel at address 0 and 22 at address 1, changes no other cell, and the set
  temperature in memory is 22 (the save is logged and stamps the save time). When the
  sentinel is there, \<^verbatim>\<open>setup\<close> leaves the EEPROM as it is, saves nothing, and the set
  temperature is the byte at address 1.
\<close>

theorem setup_loads_or_initializes:
  "(cells addrInitialized \<noteq> eepromInitialized \<longrightarrow>
      eeprom (setup_v1 t probe (power_on cells))
        = cells(addrInitialized := eepromInitialized, addrSetTemp := 22)
      \<and> setTemp (setup_v1 t probe (power_on cells)) = 22
      \<and> saveLog (setup_v1 t probe (power_on cells)) = [t]
      \<and> lastSaveSettingsMillis (setup_v1 t probe (power_on cells)) = millis t)
   \<and> (cells addrInitialized = eepromInitialized \<longrightarrow>
      eeprom (setup_v1 t probe (power_on cells)) = cells
      \<and> setTemp (setup_v1 t probe (power_on cells)) = byte_to_float (cells addrSetTemp)
      \<and> saveLog (setup_v1 t probe (power_on cells)) = [])"
  by (auto simp add: setup_v1_def power_on_def SaveSettings_v1_def EEPROM_update_def Let_def
      float_to_byte_def float_trunc_def byte_to_float_def addrInitialized_def addrSetTemp_def)

theorem setup_loads_or_initializes_witness:
  "erased addrInitialized \<noteq> eepromInitialized
   \<and> eeprom (setup_v1 7 20 (power_on erased)) 0 = 101
   \<and> eeprom (setup_v1 7 20 (power_on erased)) 1 = 22
   \<and> setTemp (setup_v1 7 20 (power_on erased)) = 22
   \<and> configured37 addrInitialized = eepromInitialized
   \<and> eeprom (setup_v1 7 20 (power_on configured37)) = configured37
   \<and> setTemp (setup_v1 7 20 (power_on configured37)) = 37"
proof -
  have first: "erased addrInitialized \<noteq> eepromInitialized"
    by (simp add: erased_def eepromInitialized_def)
  have later: "configured37 addrInitialized = eepromInitialized"
    by (simp add: configured37_def eepromInitialized_def addrInitialized_def)
  have at1: "byte_to_float (configured37 addrSetTemp) = 37"
    by (simp add: configured37_def byte_to_float_def addrSetTemp_def)
  from setup_loads_or_initializes [of erased 7 20]
    setup_loads_or_initializes [of configured37 7 20] first later at1
  show ?thesis
    by (simp add: addrInitialized_def addrSetTemp_def eepromInitialized_def)
qed

lemma float_trunc_byte_range:
  assumes "-1 < x" and "x < 256"
  shows "0 \<le> float_trunc x \<and> float_trunc x < 256"
proof (cases "0 \<le> x")
  case True
  with assms show ?thesis
    by (simp add: float_trunc_def floor_less_iff)
next
  case False
  with assms have "\<lceil>x\<rceil> = 0"
    by (simp add: ceiling_eq_iff)
  with False show ?thesis
    by (simp add: float_trunc_def)
qed

lemma byte_round_trip:
  assumes "-1 < x" and "x < 256"
  shows "byte_to_float (float_to_byte x) = of_int (float_trunc x)"
proof -
  from float_trunc_byte_range [OF assms]
  have lo: "0 \<le> float_trunc x" and hi: "float_trunc x < 256"
    by simp_all
  have "unat (word_of_int (float_trunc x) :: byte) = nat (float_trunc x)"
    using lo hi by (simp add: unat_eq_nat_uint uint_word_of_int take_bit_int_eq_self)
  with lo show ?thesis
    by (simp add: byte_to_float_def float_to_byte_def)
qed

lemma SaveSettings_v1_cell:
  "eeprom (SaveSettings_v1 t st) addrSetTemp = float_to_byte (setTemp st)"
  by (simp add: SaveSettings_v1_def EEPROM_update_def)

lemma SaveSettings_v1_other_cells:
  "a \<noteq> addrSetTemp \<Longrightarrow> eeprom (SaveSettings_v1 t st) a = eeprom st a"
  by (simp add: SaveSettings_v1_def EEPROM_update_def)

lemma setup_v1_restores:
  "cells addrInitialized = eepromInitialized \<Longrightarrow>
     setTemp (setup_v1 t probe (power_on cells)) = byte_to_float (cells addrSetTemp)"
  by (simp add: setup_v1_def power_on_def Let_def)

text \<open>
  Whatever the EEPROM holds, the set temperature after \<^verbatim>\<open>setup\<close> is between 0 and 255:
  it is the value of one cell.
\<close>

lemma byte_to_float_range: "0 \<le> byte_to_float b \<and> byte_to_float b \<le> 255"
proof -
  have "unat b < 256"
    using unsigned_less [of b, where ?'a = nat] by simp
  then have hi: "real (unat b) \<le> 255"
    by linarith
  have lo: "0 \<le> real (unat b)"
    by (rule of_nat_0_le_iff)
  from lo hi show ?thesis
    unfolding byte_to_float_def by blast
qed

lemma setup_v1_setTemp_range:
  "0 \<le> setTemp (setup_v1 t probe (power_on cells))
   \<and> setTemp (setup_v1 t probe (power_on cells)) \<le> 255"
  by (simp add: setup_v1_def power_on_def Let_def byte_to_float_range)

text \<open>
  C5, as stated, fails. A set temperature of 300 is its own whole-degree truncation, but
  the cell holds one byte: after the save, the next boot restores a value of at most 255
  (in this model 44, the low eight bits of 300).
\<close>

theorem restored_setpoint_counterexample:
  "setTemp setpoint300 = 300
   \<and> eeprom setpoint300 addrInitialized = eepromInitialized
   \<and> real_of_int (float_trunc (setTemp setpoint300)) = 300
   \<and> setTemp (setup_v1 0 20 (power_on (eeprom (SaveSettings_v1 9000 setpoint300)))) \<le> 255
   \<and> setTemp (setup_v1 0 20 (power_on (eeprom (SaveSettings_v1 9000 setpoint300))))
        \<noteq> real_of_int (float_trunc (setTemp setpoint300))"
  by (simp add: setpoint300_def example_defs Let_def)

text \<open>
  C5, amended. For every set temperature that truncates to a byte (\<open>-1 < setTemp < 256\<close>),
  \<^verbatim>\<open>SaveSettings\<close> stores its truncation towards zero in the cell at address 1, and the
  next boot of the initialised device restores exactly that whole number: the fraction
  is lost.
\<close>

theorem saved_setpoint_restored_truncated:
  assumes "eeprom st addrInitialized = eepromInitialized"
    and "-1 < setTemp st" and "setTemp st < 256"
  shows "eeprom (SaveSettings_v1 t st) addrSetTemp = word_of_int (float_trunc (setTemp st))
    \<and> setTemp (setup_v1 t' probe (power_on (eeprom (SaveSettings_v1 t st))))
        = of_int (float_trunc (setTemp st))"
proof -
  have cell: "eeprom (SaveSettings_v1 t st) addrSetTemp = float_to_byte (setTemp st)"
    by (rule SaveSettings_v1_cell)
  have "addrInitialized \<noteq> addrSetTemp"
    by (simp add: addrInitialized_def addrSetTemp_def)
  then have "eeprom (SaveSettings_v1 t st) addrInitialized = eepromInitialized"
    using assms(1) by (simp add: SaveSettings_v1_other_cells)
  then have "setTemp (setup_v1 t' probe (power_on (eeprom (SaveSettings_v1 t st))))
      = byte_to_float (float_to_byte (setTemp st))"
    by (simp add: setup_v1_restores cell)
  with cell byte_round_trip [OF assms(2,3)] show ?thesis
    by (simp add: float_to_byte_def)
qed

theorem saved_setpoint_restored_truncated_witness:
  "eeprom setpoint22_5 addrInitialized = eepromInitialized
   \<and> -1 < setTemp setpoint22_5 \<and> setTemp setpoint22_5 < 256
   \<and> setTemp setpoint22_5 = 45 / 2
   \<and> eeprom (SaveSettings_v1 9000 setpoint22_5) addrSetTemp = 22
   \<and> setTemp (setup_v1 0 20 (power_on (eeprom (SaveSettings_v1 9000 setpoint22_5)))) = 22"
proof -
  have sentinel: "eeprom setpoint22_5 addrInitialized = eepromInitialized"
    by (simp add: setpoint22_5_def example_defs Let_def)
  have lo: "-1 < setTemp setpoint22_5" and hi: "setTemp setpoint22_5 < 256"
    and val: "setTemp setpoint22_5 = 45 / 2"
    by (simp_all add: setpoint22_5_def)
  have tr: "float_trunc (45 / 2) = 22"
    by (simp add: float_trunc_def)
  from saved_setpoint_restored_truncated [OF sentinel lo hi, of 9000 0 20]
  have "eeprom (SaveSettings_v1 9000 setpoint22_5) addrSetTemp = 22
    \<and> setTemp (setup_v1 0 20 (power_on (eeprom (SaveSettings_v1 9000 setpoint22_5)))) = 22"
    by (simp add: val tr)
  with sentinel lo hi val show ?thesis
    by blast
qed

text \<open>
  C7. A second \<^verbatim>\<open>SaveSettings\<close> right after the first leaves every EEPROM cell as the
  first left it, in both variants.
\<close>

theorem save_twice_same_storage:
  "eeprom (SaveSettings_v1 t2 (SaveSettings_v1 t1 st)) = eeprom (SaveSettings_v1 t1 st)
   \<and> eeprom (SaveSettings_v2 (SaveSettings_v2 st)) = eeprom (SaveSettings_v2 st)"
  by (simp add: SaveSettings_v1_def SaveSettings_v2_def EEPROM_update_def)

section \<open>The temperature sampler: gating\<close>

text \<open>
  C6. \<^verbatim>\<open>readTemperatureWithInterval\<close> returns true, with the probe's temperature as the
  current one and the sample time stamped, only if at least \<^verbatim>\<open>readInterval\<close> has passed
  on the clock since the last sample; when less has passed it returns false and changes
  nothing of the state.
\<close>

theorem poll_gated_by_interval:
  "(fst (readTemperatureWithInterval tpoll tread probe st)
      \<longrightarrow> readInterval \<le> millis tpoll - readTempMillis st
        \<and> currentTemp (snd (readTemperatureWithInterval tpoll tread probe st)) = probe
        \<and> readTempMillis (snd (readTemperatureWithInterval tpoll tread probe st))
            = millis tread)
   \<and> (millis tpoll - readTempMillis st < readInterval
      \<longrightarrow> \<not> fst (readTemperatureWithInterval tpoll tread probe st)
        \<and> snd (readTemperatureWithInterval tpoll tread probe st) = st)"
  by (simp add: readTemperatureWithInterval_def linorder_not_less)

theorem poll_gated_by_interval_witness:
  "millis 4999 - readTempMillis (booted 20) < readInterval
   \<and> \<not> fst (readTemperatureWithInterval 4999 5000 21 (booted 20))
   \<and> snd (readTemperatureWithInterval 4999 5000 21 (booted 20)) = booted 20
   \<and> fst (readTemperatureWithInterval 5000 5001 21 (booted 20))
   \<and> readInterval \<le> millis 5000 - readTempMillis (booted 20)
   \<and> currentTemp (snd (readTemperatureWithInterval 5000 5001 21 (booted 20))) = 21"
proof -
  have early: "millis 4999 - readTempMillis (booted 20) < readInterval"
    by (simp add: example_defs Let_def readInterval_def)
  have due: "fst (readTemperatureWithInterval 5000 5001 21 (booted 20))"
    by (simp add: readTemperatureWithInterval_def example_defs Let_def readInterval_def)
  from poll_gated_by_interval [of 4999 5000 21 "booted 20"]
    poll_gated_by_interval [of 5000 5001 21 "booted 20"] early due
  show ?thesis by simp
qed

section \<open>The relay and the heater flag\<close>

text \<open>What a transition writes.\<close>

lemma turnHeaterOn_writes:
  "heaterIsOn (turnHeaterOn u st) \<and> relayPin (turnHeaterOn u st)
   \<and> heaterOnMillis (turnHeaterOn u st) = millis u
   \<and> heaterOffMillis (turnHeaterOn u st) = heaterOffMillis st"
  by (simp add: turnHeaterOn_def)

lemma turnHeaterOff_writes:
  "\<not> heaterIsOn (turnHeaterOff u st) \<and> \<not> relayPin (turnHeaterOff u st)
   \<and> heaterOffMillis (turnHeaterOff u st) = millis u
   \<and> heaterOnMillis (turnHeaterOff u st) = heaterOnMillis st"
  by (simp add: turnHeaterOff_def)

text \<open>The control block changes the heater's variables only by a transition.\<close>

lemma heaterControl_cases:
  "heaterControl now tsw st
     = turnHeaterOn tsw (st\<lparr>overShootControlActive :=
          (float_sub (setTemp st) (currentTemp st) \<le> tempDifference)\<rparr>)
     \<and> \<not> heaterIsOn st
   \<or> heaterControl now tsw st
     = turnHeaterOff tsw (st\<lparr>overShootControlActive :=
          (float_sub (setTemp st) (currentTemp st) \<le> tempDifference)\<rparr>)
     \<and> heaterIsOn st
   \<or> heaterControl now tsw st
     = st\<lparr>overShootControlActive :=
          (float_sub (setTemp st) (currentTemp st) \<le> tempDifference)\<rparr>"
  by (simp add: heaterControl_def Let_def)

lemma heaterControl_turned_on:
  assumes "\<not> heaterIsOn st" and "heaterIsOn (heaterControl now tsw st)"
  shows "relayPin (heaterControl now tsw st)
    \<and> heaterOnMillis (heaterControl now tsw st) = millis tsw
    \<and> heaterOffMillis (heaterControl now tsw st) = heaterOffMillis st"
  using heaterControl_cases [of now tsw st] assms
  by (auto simp add: turnHeaterOn_def turnHeaterOff_def)

lemma heaterControl_turned_off:
  assumes "heaterIsOn st" and "\<not> heaterIsOn (heaterControl now tsw st)"
  shows "\<not> relayPin (heaterControl now tsw st)
    \<and> heaterOffMillis (heaterControl now tsw st) = millis tsw
    \<and> heaterOnMillis (heaterControl now tsw st) = heaterOnMillis st"
  using heaterControl_cases [of now tsw st] assms
  by (auto simp add: turnHeaterOn_def turnHeaterOff_def)

lemma heaterControl_held:
  assumes "heaterIsOn (heaterControl now tsw st) = heaterIsOn st"
  shows "relayPin (heaterControl now tsw st) = relayPin st
    \<and> heaterOnMillis (heaterControl now tsw st) = heaterOnMillis st
    \<and> heaterOffMillis (heaterControl now tsw st) = heaterOffMillis st"
  using heaterControl_cases [of now tsw st] assms
  by (auto simp add: turnHeaterOn_def turnHeaterOff_def)

lemma heaterControl_relay:
  "relayPin st = heaterIsOn st \<Longrightarrow>
     relayPin (heaterControl now tsw st) = heaterIsOn (heaterControl now tsw st)"
  using heaterControl_cases [of now tsw st]
  by (auto simp add: turnHeaterOn_def turnHeaterOff_def)

text \<open>Nothing else in the sketch writes the heater's variables.\<close>

lemma SaveSettings_v1_heater:
  "relayPin (SaveSettings_v1 u st) = relayPin st
   \<and> heaterIsOn (SaveSettings_v1 u st) = heaterIsOn st
   \<and> heaterOnMillis (SaveSettings_v1 u st) = heaterOnMillis st
   \<and> heaterOffMillis (SaveSettings_v1 u st) = heaterOffMillis st"
  by (simp add: SaveSettings_v1_def)

lemma gestures_v1_heater:
  "relayPin (gestures_v1 c st) = relayPin st
   \<and> heaterIsOn (gestures_v1 c st) = heaterIsOn st
   \<and> heaterOnMillis (gestures_v1 c st) = heaterOnMillis st
   \<and> heaterOffMillis (gestures_v1 c st) = heaterOffMillis st"
  by (simp add: gestures_v1_def SaveSettings_v1_heater)

lemma readTemperatureWithInterval_heater:
  "relayPin (snd (readTemperatureWithInterval tpoll tread probe st)) = relayPin st
   \<and> heaterIsOn (snd (readTemperatureWithInterval tpoll tread probe st)) = heaterIsOn st
   \<and> heaterOnMillis (snd (readTemperatureWithInterval tpoll tread probe st))
       = heaterOnMillis st
   \<and> heaterOffMillis (snd (readTemperatureWithInterval tpoll tread probe st))
       = heaterOffMillis st"
  by (simp add: readTemperatureWithInterval_def)

lemma sample_v1_heater:
  "relayPin (sample_v1 c st) = relayPin st
   \<and> heaterIsOn (sample_v1 c st) = heaterIsOn st
   \<and> heaterOnMillis (sample_v1 c st) = heaterOnMillis st
   \<and> heaterOffMillis (sample_v1 c st) = heaterOffMillis st"
  by (simp add: sample_v1_def readTemperatureWithInterval_def)

lemma PrintTimeWithInterval_heater:
  "relayPin (PrintTimeWithInterval s st) = relayPin st
   \<and> heaterIsOn (PrintTimeWithInterval s st) = heaterIsOn st
   \<and> heaterOnMillis (PrintTimeWithInterval s st) = heaterOnMillis st
   \<and> heaterOffMillis (PrintTimeWithInterval s st) = heaterOffMillis st"
  by (simp add: PrintTimeWithInterval_def)

lemma setup_v1_heater:
  "relayPin (setup_v1 t probe st) = relayPin st
   \<and> heaterIsOn (setup_v1 t probe st) = heaterIsOn st
   \<and> heaterOnMillis (setup_v1 t probe st) = heaterOnMillis st
   \<and> heaterOffMillis (setup_v1 t probe st) = heaterOffMillis st"
  by (simp add: setup_v1_def Let_def SaveSettings_v1_def)

text \<open>One pass of the loop, seen from the heater's variables, is its control block.\<close>

lemma loop_v1_heater:
  "relayPin (loop_v1 c st)
     = relayPin (heaterControl (tDwell c) (tSwitch c) (sample_v1 c (gestures_v1 c st)))
   \<and> heaterIsOn (loop_v1 c st)
     = heaterIsOn (heaterControl (tDwell c) (tSwitch c) (sample_v1 c (gestures_v1 c st)))
   \<and> heaterOnMillis (loop_v1 c st)
     = heaterOnMillis (heaterControl (tDwell c) (tSwitch c) (sample_v1 c (gestures_v1 c st)))
   \<and> heaterOffMillis (loop_v1 c st)
     = heaterOffMillis (heaterControl (tDwell c) (tSwitch c) (sample_v1 c (gestures_v1 c st)))"
  by (simp add: loop_v1_def PrintTimeWithInterval_heater)

lemma before_control:
  "relayPin (sample_v1 c (gestures_v1 c st)) = relayPin st
   \<and> heaterIsOn (sample_v1 c (gestures_v1 c st)) = heaterIsOn st
   \<and> heaterOnMillis (sample_v1 c (gestures_v1 c st)) = heaterOnMillis st
   \<and> heaterOffMillis (sample_v1 c (gestures_v1 c st)) = heaterOffMillis st"
  by (simp add: sample_v1_heater gestures_v1_heater)

lemma loop_v1_turned_on:
  assumes "\<not> heaterIsOn st" and "heaterIsOn (loop_v1 c st)"
  shows "relayPin (loop_v1 c st) \<and> heaterOnMillis (loop_v1 c st) = millis (tSwitch c)
    \<and> heaterOffMillis (loop_v1 c st) = heaterOffMillis st"
  using heaterControl_turned_on [of "sample_v1 c (gestures_v1 c st)" "tDwell c" "tSwitch c"] assms
  by (simp add: loop_v1_heater before_control)

lemma loop_v1_turned_off:
  assumes "heaterIsOn st" and "\<not> heaterIsOn (loop_v1 c st)"
  shows "\<not> relayPin (loop_v1 c st) \<and> heaterOffMillis (loop_v1 c st) = millis (tSwitch c)
    \<and> heaterOnMillis (loop_v1 c st) = heaterOnMillis st"
  using heaterControl_turned_off [of "sample_v1 c (gestures_v1 c st)" "tDwell c" "tSwitch c"] assms
  by (simp add: loop_v1_heater before_control)

lemma loop_v1_held:
  assumes "heaterIsOn (loop_v1 c st) = heaterIsOn st"
  shows "relayPin (loop_v1 c st) = relayPin st
    \<and> heaterOnMillis (loop_v1 c st) = heaterOnMillis st
    \<and> heaterOffMillis (loop_v1 c st) = heaterOffMillis st"
  using heaterControl_held [of "tDwell c" "tSwitch c" "sample_v1 c (gestures_v1 c st)"] assms
  by (simp add: loop_v1_heater before_control)

lemma loop_v1_relay:
  assumes "relayPin st = heaterIsOn st"
  shows "relayPin (loop_v1 c st) = heaterIsOn (loop_v1 c st)"
  using heaterControl_relay [of "sample_v1 c (gestures_v1 c st)" "tDwell c" "tSwitch c"] assms
  by (simp add: loop_v1_heater before_control)

lemma run_v1_relay:
  "relayPin st = heaterIsOn st \<Longrightarrow> relayPin (run_v1 st cs) = heaterIsOn (run_v1 st cs)"
  by (induction cs arbitrary: st) (simp_all add: loop_v1_relay)

lemma reachable_relay:
  "relayPin (run_v1 (setup_v1 t probe (power_on cells)) cs)
     = heaterIsOn (run_v1 (setup_v1 t probe (power_on cells)) cs)"
  by (rule run_v1_relay) (simp add: setup_v1_heater power_on_def)

text \<open>
  C9. In every state the first variant reaches (after \<^verbatim>\<open>setup\<close> and after any number of
  passes of \<^verbatim>\<open>loop\<close>, whatever the buttons, the probe and the clock answer), the relay
  pin is \<^verbatim>\<open>HIGH\<close> exactly when \<^verbatim>\<open>heaterIsOn\<close> is true. \<^verbatim>\<open>turnHeaterOn\<close> sets the flag,
  drives the pin \<^verbatim>\<open>HIGH\<close> and stamps \<^verbatim>\<open>heaterOnMillis\<close>; \<^verbatim>\<open>turnHeaterOff\<close> clears the flag,
  drives the pin \<^verbatim>\<open>LOW\<close> and stamps \<^verbatim>\<open>heaterOffMillis\<close>. In a pass of \<^verbatim>\<open>loop\<close>, from any
  state, the flag changes only together with the pin and the matching timestamp, stamped
  with the clock read of the transition, and when the flag does not change neither the
  pin nor a timestamp does. The gestures, \<^verbatim>\<open>SaveSettings\<close>, the sampler, the clock
  display and \<^verbatim>\<open>setup\<close> leave flag and pin alone.
\<close>

theorem relay_follows_heater_flag:
  "relayPin (run_v1 (setup_v1 t probe (power_on cells)) cs)
     = heaterIsOn (run_v1 (setup_v1 t probe (power_on cells)) cs)
   \<and> (heaterIsOn (turnHeaterOn u st) \<and> relayPin (turnHeaterOn u st)
        \<and> heaterOnMillis (turnHeaterOn u st) = millis u)
   \<and> (\<not> heaterIsOn (turnHeaterOff u st) \<and> \<not> relayPin (turnHeaterOff u st)
        \<and> heaterOffMillis (turnHeaterOff u st) = millis u)
   \<and> (\<not> heaterIsOn st \<and> heaterIsOn (loop_v1 c st)
        \<longrightarrow> relayPin (loop_v1 c st) \<and> heaterOnMillis (loop_v1 c st) = millis (tSwitch c)
          \<and> heaterOffMillis (loop_v1 c st) = heaterOffMillis st)
   \<and> (heaterIsOn st \<and> \<not> heaterIsOn (loop_v1 c st)
        \<longrightarrow> \<not> relayPin (loop_v1 c st) \<and> heaterOffMillis (loop_v1 c st) = millis (tSwitch c)
          \<and> heaterOnMillis (loop_v1 c st) = heaterOnMillis st)
   \<and> (heaterIsOn (loop_v1 c st) = heaterIsOn st
        \<longrightarrow> relayPin (loop_v1 c st) = relayPin st
          \<and> heaterOnMillis (loop_v1 c st) = heaterOnMillis st
          \<and> heaterOffMillis (loop_v1 c st) = heaterOffMillis st)
   \<and> (relayPin (gestures_v1 c st) = relayPin st
        \<and> heaterIsOn (gestures_v1 c st) = heaterIsOn st)
   \<and> (relayPin (SaveSettings_v1 u st) = relayPin st
        \<and> heaterIsOn (SaveSettings_v1 u st) = heaterIsOn st)
   \<and> (relayPin (snd (readTemperatureWithInterval tpoll tread temp st)) = relayPin st
        \<and> heaterIsOn (snd (readTemperatureWithInterval tpoll tread temp st)) = heaterIsOn st)
   \<and> (relayPin (PrintTimeWithInterval secs st) = relayPin st
        \<and> heaterIsOn (PrintTimeWithInterval secs st) = heaterIsOn st)
   \<and> (relayPin (setup_v1 u temp st) = relayPin st
        \<and> heaterIsOn (setup_v1 u temp st) = heaterIsOn st)"
proof -
  note reach = reachable_relay [of t probe cells cs]
  note on = turnHeaterOn_writes [of u st]
  note off = turnHeaterOff_writes [of u st]
  have turned_on: "\<not> heaterIsOn st \<and> heaterIsOn (loop_v1 c st)
      \<longrightarrow> relayPin (loop_v1 c st) \<and> heaterOnMillis (loop_v1 c st) = millis (tSwitch c)
        \<and> heaterOffMillis (loop_v1 c st) = heaterOffMillis st"
    using loop_v1_turned_on [of st c] by blast
  have turned_off: "heaterIsOn st \<and> \<not> heaterIsOn (loop_v1 c st)
      \<longrightarrow> \<not> relayPin (loop_v1 c st) \<and> heaterOffMillis (loop_v1 c st) = millis (tSwitch c)
        \<and> heaterOnMillis (loop_v1 c st) = heaterOnMillis st"
    using loop_v1_turned_off [of st c] by blast
  have held: "heaterIsOn (loop_v1 c st) = heaterIsOn st
      \<longrightarrow> relayPin (loop_v1 c st) = relayPin st
        \<and> heaterOnMillis (loop_v1 c st) = heaterOnMillis st
        \<and> heaterOffMillis (loop_v1 c st) = heaterOffMillis st"
    using loop_v1_held [of c st] by blast
  from reach on off turned_on turned_off held
    gestures_v1_heater [of c st] SaveSettings_v1_heater [of u st]
    readTemperatureWithInterval_heater [of tpoll tread temp st]
    PrintTimeWithInterval_heater [of secs st] setup_v1_heater [of u temp st]
  show ?thesis
    by blast
qed

lemma booted_off: "\<not> heaterIsOn (booted 19)"
  by (simp add: example_defs Let_def)

lemma heatingRun_on: "heaterIsOn heatingRun"
  by (simp add: heatingRun_def idle_def cycle_defs example_defs control_defs)

lemma heatingRun_cooled_off: "\<not> heaterIsOn (loop_v1 (idle 6000 23) heatingRun)"
  by (simp add: heatingRun_def idle_def cycle_defs example_defs control_defs)

theorem relay_follows_heater_flag_witness:
  "\<not> heaterIsOn (booted 19)
   \<and> heaterIsOn heatingRun \<and> relayPin heatingRun \<and> heaterOnMillis heatingRun = millis 105
   \<and> \<not> heaterIsOn (loop_v1 (idle 6000 23) heatingRun)
   \<and> \<not> relayPin (loop_v1 (idle 6000 23) heatingRun)
   \<and> heaterOffMillis (loop_v1 (idle 6000 23) heatingRun) = millis 6005
   \<and> heaterOnMillis (loop_v1 (idle 6000 23) heatingRun) = millis 105"
proof -
  have run: "heatingRun = loop_v1 (idle 100 19) (booted 19)"
    by (simp add: heatingRun_def)
  have sw1: "tSwitch (idle 100 19) = 105" and sw2: "tSwitch (idle 6000 23) = 6005"
    by (simp_all add: idle_def)
  from relay_follows_heater_flag [where st = "booted 19" and c = "idle 100 19"]
    booted_off heatingRun_on
  have first: "relayPin heatingRun \<and> heaterOnMillis heatingRun = millis 105"
    by (simp add: run sw1)
  from relay_follows_heater_flag [where st = heatingRun and c = "idle 6000 23"]
    heatingRun_on heatingRun_cooled_off
  have second: "\<not> relayPin (loop_v1 (idle 6000 23) heatingRun)
      \<and> heaterOffMillis (loop_v1 (idle 6000 23) heatingRun) = millis 6005
      \<and> heaterOnMillis (loop_v1 (idle 6000 23) heatingRun) = heaterOnMillis heatingRun"
    by (simp add: sw2)
  from booted_off heatingRun_on heatingRun_cooled_off first second show ?thesis
    by simp
qed

section \<open>The save gesture of the first variant\<close>

lemma heaterControl_saves:
  "saveLog (heaterControl now tsw st) = saveLog st
   \<and> lastSaveSettingsMillis (heaterControl now tsw st) = lastSaveSettingsMillis st
   \<and> eeprom (heaterControl now tsw st) = eeprom st"
  by (simp add: heaterControl_def Let_def turnHeaterOn_def turnHeaterOff_def)

lemma sample_v1_saves:
  "saveLog (sample_v1 c st) = saveLog st
   \<and> lastSaveSettingsMillis (sample_v1 c st) = lastSaveSettingsMillis st
   \<and> eeprom (sample_v1 c st) = eeprom st"
  by (simp add: sample_v1_def readTemperatureWithInterval_def)

lemma PrintTimeWithInterval_saves:
  "saveLog (PrintTimeWithInterval s st) = saveLog st
   \<and> lastSaveSettingsMillis (PrintTimeWithInterval s st) = lastSaveSettingsMillis st
   \<and> eeprom (PrintTimeWithInterval s st) = eeprom st"
  by (simp add: PrintTimeWithInterval_def)

lemma loop_v1_saves:
  "saveLog (loop_v1 c st) = saveLog (gestures_v1 c st)
   \<and> lastSaveSettingsMillis (loop_v1 c st) = lastSaveSettingsMillis (gestures_v1 c st)
   \<and> eeprom (loop_v1 c st) = eeprom (gestures_v1 c st)"
  by (simp add: loop_v1_def PrintTimeWithInterval_saves heaterControl_saves sample_v1_saves)

lemma gestures_v1_saved:
  "saveGesture c st \<Longrightarrow>
     saveLog (gestures_v1 c st) = saveLog st @ [tSave c]
     \<and> lastSaveSettingsMillis (gestures_v1 c st) = millis (tSave c)"
  by (simp add: gestures_v1_def SaveSettings_v1_def)

lemma gestures_v1_not_saved:
  "\<not> saveGesture c st \<Longrightarrow>
     saveLog (gestures_v1 c st) = saveLog st
     \<and> lastSaveSettingsMillis (gestures_v1 c st) = lastSaveSettingsMillis st
     \<and> eeprom (gestures_v1 c st) = eeprom st"
  by (simp add: gestures_v1_def)

lemma elapsed_on_clock:
  assumes "a \<le> b"
  shows "unat (millis b - millis a) \<le> b - a"
proof -
  from assms have "millis b - millis a = (of_nat (b - a) :: ulong)"
    by (simp add: millis_def)
  then show ?thesis
    by (simp add: unat_of_nat)
qed

lemma elapsed_within_interval:
  assumes "a \<le> b" and "b - a \<le> unat saveSettingsInterval"
  shows "\<not> millis b - millis a > saveSettingsInterval"
proof -
  from elapsed_on_clock [OF assms(1)] assms(2)
  have "unat (millis b - millis a) \<le> unat saveSettingsInterval"
    by simp
  then show ?thesis
    by (simp add: word_less_nat_alt)
qed

lemma elapsed_more_than_interval:
  assumes "a \<le> b" and "millis b - millis a > saveSettingsInterval"
  shows "a + unat saveSettingsInterval < b"
proof -
  from assms(2) have "unat saveSettingsInterval < unat (millis b - millis a)"
    by (simp add: word_less_nat_alt)
  with elapsed_on_clock [OF assms(1)] show ?thesis
    by simp
qed

lemma saveHistory_last:
  assumes "saveHistory t st" and "saveLog st \<noteq> []"
  shows "last (saveLog st) \<le> t"
proof -
  from assms(2) have "last (saveLog st) \<in> set (saveLog st)"
    by simp
  with assms(1) show ?thesis
    by (simp add: saveHistory_def)
qed

lemma saveHistory_step:
  assumes inv: "saveHistory t st"
    and t1: "t \<le> tGesture c" and t2: "tGesture c \<le> tSave c" and t3: "tSave c \<le> t'"
  shows "saveHistory t' (loop_v1 c st)"
proof (cases "saveGesture c st")
  case False
  with inv t1 t2 t3 show ?thesis
    by (auto simp add: saveHistory_def loop_v1_saves gestures_v1_not_saved)
next
  case True
  have gap: "\<forall>a \<in> set (saveLog st). a + unat saveSettingsInterval < tSave c"
  proof
    fix a
    assume a: "a \<in> set (saveLog st)"
    then have ne: "saveLog st \<noteq> []"
      by auto
    let ?l = "last (saveLog st)"
    from inv ne have stamp: "lastSaveSettingsMillis st = millis ?l"
      by (simp add: saveHistory_def)
    from saveHistory_last [OF inv ne] t1 have le: "?l \<le> tGesture c"
      by simp
    from True stamp have "millis (tGesture c) - millis ?l > saveSettingsInterval"
      by (simp add: saveGesture_def)
    from elapsed_more_than_interval [OF le this] t2
    have far: "?l + unat saveSettingsInterval < tSave c"
      by simp
    have "a \<le> ?l"
    proof (cases "a = ?l")
      case True
      then show ?thesis by simp
    next
      case False
      from ne have split: "saveLog st = butlast (saveLog st) @ [?l]"
        by simp
      with a False have "a \<in> set (butlast (saveLog st))"
        by (metis Un_iff empty_iff empty_set set_ConsD set_append)
      moreover from inv have "sorted_wrt (\<lambda>a b. a + unat saveSettingsInterval < b)
          (butlast (saveLog st) @ [?l])"
        using split by (simp add: saveHistory_def)
      ultimately show ?thesis
        by (auto simp add: sorted_wrt_append)
    qed
    with far show "a + unat saveSettingsInterval < tSave c"
      by simp
  qed
  from inv gap have "sorted_wrt (\<lambda>a b. a + unat saveSettingsInterval < b)
      (saveLog st @ [tSave c])"
    by (simp add: sorted_wrt_append saveHistory_def)
  moreover from gap t3 have "\<forall>a \<in> set (saveLog st @ [tSave c]). a \<le> t'"
    by auto
  ultimately show ?thesis
    using True by (simp add: saveHistory_def loop_v1_saves gestures_v1_saved)
qed

lemma saveHistory_run:
  "saveHistory t st \<Longrightarrow> chronological t cs \<Longrightarrow> \<exists>t'. saveHistory t' (run_v1 st cs)"
proof (induction cs arbitrary: t st)
  case Nil
  then show ?case by auto
next
  case (Cons c cs)
  from Cons.prems have "saveHistory (tSwitch c) (loop_v1 c st)"
    by (intro saveHistory_step [of t st c]) auto
  moreover from Cons.prems have "chronological (tSwitch c) cs"
    by simp
  ultimately show ?case
    using Cons.IH by simp
qed

lemma saveHistory_setup: "saveHistory t (setup_v1 t probe (power_on cells))"
  by (simp add: saveHistory_def setup_v1_def power_on_def Let_def SaveSettings_v1_def)

text \<open>
  C10. In a run of the first variant whose clock reads are in time order, any two saves
  (the one of the first boot included) are more than \<^verbatim>\<open>saveSettingsInterval\<close> = 5000 ms
  apart; and a cycle whose gesture comes no later than that interval after the latest
  save writes nothing to the EEPROM and saves nothing, whatever the buttons answer.
\<close>

theorem saves_never_within_interval:
  assumes "chronological t0 cs"
  shows "let st = run_v1 (setup_v1 t0 probe (power_on cells)) cs in
      sorted_wrt (\<lambda>a b. a + unat saveSettingsInterval < b) (saveLog st)
      \<and> (saveLog st \<noteq> [] \<and> last (saveLog st) \<le> tGesture c
           \<and> tGesture c - last (saveLog st) \<le> unat saveSettingsInterval
         \<longrightarrow> eeprom (loop_v1 c st) = eeprom st \<and> saveLog (loop_v1 c st) = saveLog st)"
proof -
  define st where "st = run_v1 (setup_v1 t0 probe (power_on cells)) cs"
  from saveHistory_run [OF saveHistory_setup assms]
  obtain t' where inv: "saveHistory t' st"
    unfolding st_def by blast
  then have apart: "sorted_wrt (\<lambda>a b. a + unat saveSettingsInterval < b) (saveLog st)"
    by (simp add: saveHistory_def)
  have quiet: "eeprom (loop_v1 c st) = eeprom st \<and> saveLog (loop_v1 c st) = saveLog st"
    if ne: "saveLog st \<noteq> []" and le: "last (saveLog st) \<le> tGesture c"
      and near: "tGesture c - last (saveLog st) \<le> unat saveSettingsInterval"
  proof -
    from inv ne have "lastSaveSettingsMillis st = millis (last (saveLog st))"
      by (simp add: saveHistory_def)
    with elapsed_within_interval [OF le near] have "\<not> saveGesture c st"
      by (simp add: saveGesture_def)
    then show ?thesis
      by (simp add: loop_v1_saves gestures_v1_not_saved)
  qed
  from apart quiet show ?thesis
    unfolding st_def Let_def by blast
qed

lemma firstBootRun_saveLog: "saveLog firstBootRun = [10, 6001]"
  by (simp add: firstBootRun_def loop_v1_saves gestures_v1_def saveGesture_def
      SaveSettings_v1_def pressBoth_def setup_v1_def power_on_def Let_def erased_def
      eepromInitialized_def addrInitialized_def millis_def saveSettingsInterval_def)

theorem saves_never_within_interval_witness:
  "chronological 10 [pressBoth 3000, pressBoth 6000]
   \<and> saveLog firstBootRun = [10, 6001]
   \<and> sorted_wrt (\<lambda>a b. a + unat saveSettingsInterval < b) (saveLog firstBootRun)
   \<and> tGesture (pressBoth 9000) - last (saveLog firstBootRun) \<le> unat saveSettingsInterval
   \<and> eeprom (loop_v1 (pressBoth 9000) firstBootRun) = eeprom firstBootRun
   \<and> saveLog (loop_v1 (pressBoth 9000) firstBootRun) = saveLog firstBootRun"
proof -
  have order: "chronological 10 [pressBoth 3000, pressBoth 6000]"
    by (simp add: pressBoth_def)
  have near: "tGesture (pressBoth 9000) - last (saveLog firstBootRun) \<le> unat saveSettingsInterval"
    by (simp add: firstBootRun_saveLog pressBoth_def saveSettingsInterval_def)
  have after: "saveLog firstBootRun \<noteq> [] \<and> last (saveLog firstBootRun) \<le> tGesture (pressBoth 9000)"
    by (simp add: firstBootRun_saveLog pressBoth_def)
  from saves_never_within_interval [OF order, of 20 erased "pressBoth 9000"] near after
  have "sorted_wrt (\<lambda>a b. a + unat saveSettingsInterval < b) (saveLog firstBootRun)
    \<and> eeprom (loop_v1 (pressBoth 9000) firstBootRun) = eeprom firstBootRun
    \<and> saveLog (loop_v1 (pressBoth 9000) firstBootRun) = saveLog firstBootRun"
    unfolding Let_def firstBootRun_def by blast
  with order near firstBootRun_saveLog show ?thesis
    by blast
qed

section \<open>Adjusting the setpoint\<close>

lemma loop_v1_setTemp: "setTemp (loop_v1 c st) = setTemp (gestures_v1 c st)"
  by (simp add: loop_v1_def PrintTimeWithInterval_def heaterControl_def Let_def
      turnHeaterOn_def turnHeaterOff_def sample_v1_def readTemperatureWithInterval_def)

lemma increment_whole:
  assumes "- 16777216 \<le> n" and "n < 16777216"
  shows "float_add (of_int n) 1 = of_int (n + 1)"
proof -
  from assms have "\<bar>n + 1\<bar> \<le> 16777216"
    by simp
  from float_round_int [OF this] show ?thesis
    by (simp add: float_add_def)
qed

lemma decrement_whole:
  assumes "- 16777216 < n" and "n \<le> 16777216"
  shows "float_sub (of_int n) 1 = of_int (n - 1)"
proof -
  from assms have "\<bar>n - 1\<bar> \<le> 16777216"
    by simp
  from float_round_int [OF this] show ?thesis
    by (simp add: float_sub_def)
qed

text \<open>
  C8, as stated, fails. At a set temperature of \<open>2 ^ 24\<close> the increment of line 94 rounds
  \<open>2 ^ 24 + 1\<close> back to \<open>2 ^ 24\<close>, and the decrement of line 89 then gives \<open>2 ^ 24 - 1\<close>.
\<close>

theorem adjust_round_trip_counterexample:
  "setTemp setpoint16777216 = 16777216
   \<and> \<not> saveGesture (pressRight 7000) setpoint16777216
   \<and> \<not> leftPressed87 (pressRight 7000) \<and> rightPressed92 (pressRight 7000)
   \<and> setTemp (loop_v1 (pressRight 7000) setpoint16777216) = 16777216
   \<and> \<not> saveGesture (pressLeft 8000) (loop_v1 (pressRight 7000) setpoint16777216)
   \<and> leftPressed87 (pressLeft 8000)
   \<and> setTemp (loop_v1 (pressLeft 8000) (loop_v1 (pressRight 7000) setpoint16777216))
        = 16777215"
  by (simp add: loop_v1_setTemp gestures_v1_def saveGesture_def pressRight_def pressLeft_def
      setpoint16777216_def float_add_def float_sub_def float_round_16777217 float_round_whole)

text \<open>
  C8, amended. For every set temperature that is a whole number from \<open>- 2 ^ 24\<close> to
  \<open>2 ^ 24 - 1\<close>, a pass of the loop that increments it (line 94) followed by a pass that
  decrements it (line 89) restores exactly the value before, and neither pass changes
  the EEPROM.
\<close>

theorem adjust_round_trip:
  assumes "\<not> saveGesture c1 st" and "\<not> leftPressed87 c1" and "rightPressed92 c1"
    and "\<not> saveGesture c2 (loop_v1 c1 st)" and "leftPressed87 c2"
    and "setTemp st = of_int n" and "- 16777216 \<le> n" and "n < 16777216"
  shows "setTemp (loop_v1 c1 st) = setTemp st + 1
    \<and> setTemp (loop_v1 c2 (loop_v1 c1 st)) = setTemp st
    \<and> eeprom (loop_v1 c1 st) = eeprom st
    \<and> eeprom (loop_v1 c2 (loop_v1 c1 st)) = eeprom st"
proof -
  from assms(1-3) have "setTemp (loop_v1 c1 st) = float_add (setTemp st) 1"
    by (simp add: loop_v1_setTemp gestures_v1_def)
  with increment_whole [OF assms(7,8)] assms(6)
  have up: "setTemp (loop_v1 c1 st) = of_int (n + 1)"
    by simp
  from assms(4,5) have "setTemp (loop_v1 c2 (loop_v1 c1 st))
      = float_sub (setTemp (loop_v1 c1 st)) 1"
    by (simp add: loop_v1_setTemp gestures_v1_def)
  moreover from assms(7,8) have "- 16777216 < n + 1" and "n + 1 \<le> 16777216"
    by simp_all
  from decrement_whole [OF this] have "float_sub (of_int (n + 1)) 1 = of_int n"
    by simp
  ultimately have down: "setTemp (loop_v1 c2 (loop_v1 c1 st)) = of_int n"
    by (simp add: up)
  from assms(1) have keep1: "eeprom (loop_v1 c1 st) = eeprom st"
    by (simp add: loop_v1_saves gestures_v1_not_saved)
  from assms(4) have "eeprom (loop_v1 c2 (loop_v1 c1 st)) = eeprom (loop_v1 c1 st)"
    by (simp add: loop_v1_saves gestures_v1_not_saved)
  with up down keep1 assms(6) show ?thesis
    by simp
qed

theorem adjust_round_trip_witness:
  "\<not> saveGesture (pressRight 7000) (booted 20)
   \<and> \<not> leftPressed87 (pressRight 7000) \<and> rightPressed92 (pressRight 7000)
   \<and> \<not> saveGesture (pressLeft 8000) (loop_v1 (pressRight 7000) (booted 20))
   \<and> leftPressed87 (pressLeft 8000)
   \<and> setTemp (booted 20) = 22
   \<and> setTemp (loop_v1 (pressRight 7000) (booted 20)) = 23
   \<and> setTemp (loop_v1 (pressLeft 8000) (loop_v1 (pressRight 7000) (booted 20))) = 22
   \<and> eeprom (loop_v1 (pressLeft 8000) (loop_v1 (pressRight 7000) (booted 20)))
        = eeprom (booted 20)"
proof -
  have up: "\<not> saveGesture (pressRight 7000) (booted 20)"
    "\<not> leftPressed87 (pressRight 7000)" "rightPressed92 (pressRight 7000)"
    by (simp_all add: saveGesture_def pressRight_def)
  have down: "\<not> saveGesture (pressLeft 8000) (loop_v1 (pressRight 7000) (booted 20))"
    "leftPressed87 (pressLeft 8000)"
    by (simp_all add: saveGesture_def pressLeft_def)
  have whole: "setTemp (booted 20) = of_int 22"
    by (simp add: example_defs Let_def)
  have range: "- 16777216 \<le> (22 :: int)" "(22 :: int) < 16777216"
    by simp_all
  from adjust_round_trip [OF up down whole range] up down whole show ?thesis
    by simp
qed

end
